theory Spec2Isabelle
  imports Complex_Main "HOL-Library.AList"
begin

section \<open>Python values and exceptions\<close>

text \<open>
  The dubbing pipeline of \<^verbatim>\<open>ariel/dubbing.py\<close> is dynamically typed: stage outputs,
  collaborator results and configuration values are passed around as Python objects.
  \<open>pyval\<close> is the universe of those objects as far as the orchestrator looks at them.
  A dictionary is an association list in insertion order, as a Python \<^verbatim>\<open>dict\<close> keeps it;
  an instance of a dataclass is \<open>PObject\<close> with its class name and attributes.
\<close>

datatype pyval =
    PNone
  | PBool bool
  | PInt int
  | PFloat real
  | PStr string
  | PList "pyval list"
  | PTuple "pyval list"
  | PDict "(string \<times> pyval) list"
  | PObject string "(string \<times> pyval) list"

text \<open>
  Exceptions are values. Every constructor is a subclass of Python's \<^verbatim>\<open>Exception\<close>;
  \<open>Raised\<close> is any other \<^verbatim>\<open>Exception\<close> a collaborator raises. Signals that derive
  from \<^verbatim>\<open>BaseException\<close> only (a keyboard interrupt) are outside the model.
\<close>

datatype py_error =
    AttributeError string
  | TypeError string
  | ValueError string
  | UnboundLocalError string
  | Raised string

text \<open>The message of an exception, as \<^verbatim>\<open>str(e)\<close> and an f-string print it.\<close>

definition str_of_error :: "py_error \<Rightarrow> string" where
  "str_of_error e = (case e of AttributeError m \<Rightarrow> m | TypeError m \<Rightarrow> m | ValueError m \<Rightarrow> m
     | UnboundLocalError m \<Rightarrow> m | Raised m \<Rightarrow> m)"

text \<open>
  Truth value testing, attribute access, iteration and the unpacking of a two-element
  sequence, as Python defines them on the values above. An instance of a dataclass
  defines neither \<^verbatim>\<open>__bool__\<close> nor \<^verbatim>\<open>__len__\<close> and is true. Iterating a string yields
  its characters, iterating a dictionary its keys.
\<close>

fun truthy :: "pyval \<Rightarrow> bool" where
  "truthy PNone = False"
| "truthy (PBool b) = b"
| "truthy (PInt i) = (i \<noteq> 0)"
| "truthy (PFloat x) = (x \<noteq> 0)"
| "truthy (PStr s) = (s \<noteq> [])"
| "truthy (PList xs) = (xs \<noteq> [])"
| "truthy (PTuple xs) = (xs \<noteq> [])"
| "truthy (PDict kvs) = (kvs \<noteq> [])"
| "truthy (PObject c fs) = True"

fun py_getattr :: "pyval \<Rightarrow> string \<Rightarrow> py_error + pyval" where
  "py_getattr (PObject c fs) name =
     (case map_of fs name of Some v \<Rightarrow> Inr v
      | None \<Rightarrow> Inl (AttributeError (c @ '' object has no attribute '' @ name)))"
| "py_getattr v name = Inl (AttributeError (''object has no attribute '' @ name))"

fun py_iter :: "pyval \<Rightarrow> py_error + pyval list" where
  "py_iter (PList xs) = Inr xs"
| "py_iter (PTuple xs) = Inr xs"
| "py_iter (PStr s) = Inr (map (\<lambda>c. PStr [c]) s)"
| "py_iter (PDict kvs) = Inr (map (\<lambda>kv. PStr (fst kv)) kvs)"
| "py_iter v = Inl (TypeError ''object is not iterable'')"

definition unpack2 :: "pyval \<Rightarrow> py_error + pyval \<times> pyval" where
  "unpack2 v =
     (case py_iter v of
        Inl e \<Rightarrow> Inl e
      | Inr xs \<Rightarrow> (case xs of [a, b] \<Rightarrow> Inr (a, b)
                  | _ \<Rightarrow> Inl (ValueError ''wrong number of values to unpack (expected 2)'')))"

text \<open>
  \<^verbatim>\<open>os.path.join\<close> and \<^verbatim>\<open>os.path.splitext\<close> of the POSIX path module, for two components.
  The extension starts at the last dot of the last path component, unless only dots
  precede it there.
\<close>

definition posix_join :: "string \<Rightarrow> string \<Rightarrow> string" where
  "posix_join a b =
     (if b \<noteq> [] \<and> hd b = CHR ''/'' then b
      else if a = [] \<or> last a = CHR ''/'' then a @ b
      else a @ ''/'' @ b)"

definition os_path_join :: "string \<Rightarrow> pyval \<Rightarrow> py_error + string" where
  "os_path_join a v =
     (case v of
        PStr b \<Rightarrow> Inr (posix_join a b)
      | _ \<Rightarrow> Inl (TypeError ''join() argument must be str''))"

definition os_path_splitext :: "string \<Rightarrow> string \<times> string" where
  "os_path_splitext p =
     (let base = rev (takeWhile (\<lambda>c. c \<noteq> CHR ''/'') (rev p));
          after = rev (takeWhile (\<lambda>c. c \<noteq> CHR ''.'') (rev base));
          stem = take (length base - length after - 1) base
      in if CHR ''.'' \<in> set base \<and> \<not> list_all (\<lambda>c. c = CHR ''.'') stem
         then (take (length p - length after - 1) p, CHR ''.'' # after)
         else (p, []))"

text \<open>
  \<^verbatim>\<open>str.lower\<close> on ASCII letters. The extension is only compared with the ASCII
  constants below, and no character outside ASCII lowers to a letter of them.
\<close>

definition ascii_lower :: "char \<Rightarrow> char" where
  "ascii_lower c =
     (case map_of (zip ''ABCDEFGHIJKLMNOPQRSTUVWXYZ'' ''abcdefghijklmnopqrstuvwxyz'') c of
        Some l \<Rightarrow> l
      | None \<Rightarrow> c)"

section \<open>Module-level constants and functions of \<^verbatim>\<open>ariel/dubbing.py\<close>\<close>

definition ACCEPTED_VIDEO_FORMATS :: "string list" where
  "ACCEPTED_VIDEO_FORMATS = [''.mp4'']"

definition ACCEPTED_AUDIO_FORMATS :: "string list" where
  "ACCEPTED_AUDIO_FORMATS = [''.wav'', ''.mp3'', ''.flac'']"

definition UTTERNACE_METADATA_FILE_NAME :: string where
  "UTTERNACE_METADATA_FILE_NAME = ''utterance_metadata.json''"

definition NUMBER_OF_STEPS :: nat where
  "NUMBER_OF_STEPS = 6"

definition is_video :: "string \<Rightarrow> py_error + bool" where
  "is_video inp =
     (let file_extension = map ascii_lower (snd (os_path_splitext inp))
      in if file_extension \<in> set ACCEPTED_VIDEO_FORMATS then Inr True
         else if file_extension \<in> set ACCEPTED_AUDIO_FORMATS then Inr False
         else Inl (ValueError (''Unsupported file format: '' @ file_extension)))"


section \<open>Attribution application: \<^verbatim>\<open>speech_to_text.add_speaker_info\<close>\<close>

type_synonym utterance = "(string \<times> pyval) list"

text \<open>
  Modelled from the spec: \<^verbatim>\<open>ariel/speech_to_text.py\<close> is not among the sources; only its
  test \<^verbatim>\<open>AddSpeakerInfoTest\<close> is. The spec (4.4, 8) requires both lists to have the same
  length, a mismatch being a \<^verbatim>\<open>ValueError\<close>-class error and never a zip or a truncation, and
  on equal lengths attaches the speaker tuple at the same position to each utterance.
  The two attached keys are written as the test asserts them, \<^verbatim>\<open>speaker_id\<close> and
  \<^verbatim>\<open>ssml_gender\<close>. Assigning a key of a Python dictionary replaces the value in place when
  the key is present and appends the key otherwise, which is \<open>AList.update\<close>.
\<close>

definition attach_speaker :: "utterance \<Rightarrow> string \<times> string \<Rightarrow> utterance" where
  "attach_speaker u sp =
     AList.update ''ssml_gender'' (PStr (snd sp))
       (AList.update ''speaker_id'' (PStr (fst sp)) u)"

definition add_speaker_info ::
  "utterance list \<Rightarrow> (string \<times> string) list \<Rightarrow> py_error + utterance list" where
  "add_speaker_info utterance_metadata speaker_info =
     (if length utterance_metadata \<noteq> length speaker_info
      then Inl (ValueError
        ''The length of utterance_metadata and speaker_info must be the same.'')
      else Inr (map (\<lambda>(u, sp). attach_speaker u sp) (zip utterance_metadata speaker_info)))"

section \<open>Remote Asset Readiness Poller\<close>

text \<open>
  Modelled from the spec: the poller (\<^verbatim>\<open>wait_for_file_active\<close> of \<^verbatim>\<open>ariel/speech_to_text.py\<close>) is
  not among the sources; its tests replace the function by a mock. The spec (4.2, 7)
  gives the contract \<^verbatim>\<open>wait_until_active(handle, query_status, max_wait, poll_interval)\<close>:
  the handle is queried; \<^verbatim>\<open>active\<close> is success, \<^verbatim>\<open>failed\<close> is reported at once, and a
  handle still \<^verbatim>\<open>pending\<close> is queried again after one fixed interval, until the elapsed time
  exceeds \<^verbatim>\<open>max_wait\<close>. Time is counted in whole units; the \<open>k\<close>-th re-query happens
  \<open>k * poll_interval\<close> units after the first query, and \<open>query_status handle k\<close> is the
  state the remote service reports then. The result carries the number of re-queries made.
  A zero interval never lets time pass, so the loop is a partial function and its
  termination for a positive interval is a theorem.
\<close>

datatype asset_state = Pending | Active | Failed

datatype poll_error = RemoteAssetTimeout | RemoteAssetFailed

partial_function (option) poll ::
  "(nat \<Rightarrow> asset_state) \<Rightarrow> nat \<Rightarrow> nat \<Rightarrow> nat \<Rightarrow> ((poll_error + unit) \<times> nat) option" where
  "poll answers max_wait poll_interval k =
     (case answers k of
        Active \<Rightarrow> Some (Inr (), k)
      | Failed \<Rightarrow> Some (Inl RemoteAssetFailed, k)
      | Pending \<Rightarrow>
          if max_wait < k * poll_interval then Some (Inl RemoteAssetTimeout, k)
          else poll answers max_wait poll_interval (Suc k))"

definition wait_until_active ::
  "'h \<Rightarrow> ('h \<Rightarrow> nat \<Rightarrow> asset_state) \<Rightarrow> nat \<Rightarrow> nat \<Rightarrow> ((poll_error + unit) \<times> nat) option" where
  "wait_until_active handle query_status max_wait poll_interval =
     poll (query_status handle) max_wait poll_interval 0"

text \<open>Three remote services used as concrete inputs.\<close>

definition pending_then_active :: "unit \<Rightarrow> nat \<Rightarrow> asset_state" where
  "pending_then_active h k = (if k = 0 then Pending else Active)"

definition always_pending :: "unit \<Rightarrow> nat \<Rightarrow> asset_state" where
  "always_pending h k = Pending"

definition failed_at_once :: "unit \<Rightarrow> nat \<Rightarrow> asset_state" where
  "failed_at_once h k = Failed"

section \<open>The world of a run\<close>

text \<open>
  A run touches the outside through calls: the processing modules of the package
  (\<^verbatim>\<open>audio_processing\<close>, \<^verbatim>\<open>video_processing\<close>, \<^verbatim>\<open>speech_to_text\<close>, \<^verbatim>\<open>translation\<close>,
  \<^verbatim>\<open>text_to_speech\<close>), which are not among the sources, and third-party libraries (the
  file system of \<^verbatim>\<open>tf.io.gfile\<close>, \<^verbatim>\<open>json\<close>, the model constructors). An \<open>environment\<close> gives
  the behaviour of every such call, by its qualified name, positional and keyword
  arguments, on a state \<open>'w\<close> of the outside: it returns a value or raises. The general theorems
  about the orchestrator hold for every environment. The world also records each call
  with its outcome, in order, and the messages logged.
\<close>

datatype log_level = INFO | WARNING

datatype event = Event string "pyval list" "(string \<times> pyval) list" "py_error option"

record 'w world =
  outside :: 'w
  trace :: "event list"
  logged :: "(log_level \<times> string) list"

section \<open>The \<^verbatim>\<open>Dubber\<close> object\<close>

text \<open>
  The progress bar is a \<^verbatim>\<open>tqdm\<close> object: its total and its counter \<^verbatim>\<open>n\<close>, which
  \<^verbatim>\<open>update(k)\<close> advances by \<open>k\<close>.

  A \<^verbatim>\<open>Dubber\<close> holds the constructor's arguments and, for each \<^verbatim>\<open>functools.cached_property\<close>
  of the class, a slot that is empty until the property has been computed once. The two
  API tokens and the generation parameters of the Gemini model are left out: the tokens
  are only passed in the calls of \<^verbatim>\<open>get_api_token\<close> that Python refuses, and the parameters
  are read only in the body of \<^verbatim>\<open>configure_gemini_model\<close>, which no call of the class
  reaches (see below). The cached properties \<^verbatim>\<open>diarization_system_instructions\<close> and
  \<^verbatim>\<open>translation_system_instructions\<close> have no slot: \<^verbatim>\<open>__init__\<close> assigns instance attributes
  of the same names, which are what an access reads.
\<close>

record tqdm =
  tqdm_total :: nat
  tqdm_n :: nat

record dubber =
  input_file :: string
  output_directory :: string
  advertiser_name :: string
  original_language :: string
  target_language :: string
  number_of_speakers :: int
  diarization_instructions :: pyval
  translation_instructions :: pyval
  merge_utterances :: bool
  minimum_merge_threshold :: pyval
  preferred_voices :: pyval
  clean_up :: bool
  pyannote_model :: string
  diarization_system_instructions :: string
  translation_system_instructions :: string
  cached_device :: "string option"
  cached_is_video :: "bool option"
  cached_progress_bar :: "tqdm option"
  cached_preprocesing_output :: "pyval option"
  cached_speech_to_text_output :: "pyval option"
  cached_translation_output :: "pyval option"
  cached_text_to_speech_output :: "pyval option"
  cached_postprocessing_output :: "pyval option"

type_synonym 'w environment =
  "string \<Rightarrow> pyval list \<Rightarrow> (string \<times> pyval) list \<Rightarrow> 'w \<Rightarrow> (py_error + pyval) \<times> 'w"

text \<open>
  A piece of the orchestrator's code transforms the \<^verbatim>\<open>Dubber\<close> object and the world and
  either returns a value or raises. \<open>bindM\<close> is sequencing: what follows a raise is not
  run. \<open>tryM\<close> is \<^verbatim>\<open>try ... except Exception as e\<close>.
\<close>

type_synonym ('a, 'w) M = "dubber \<times> 'w world \<Rightarrow> (py_error + 'a) \<times> dubber \<times> 'w world"

definition returnM :: "'a \<Rightarrow> ('a, 'w) M" where
  "returnM x = (\<lambda>s. (Inr x, s))"

definition raiseM :: "py_error \<Rightarrow> ('a, 'w) M" where
  "raiseM e = (\<lambda>s. (Inl e, s))"

definition liftE :: "py_error + 'a \<Rightarrow> ('a, 'w) M" where
  "liftE r = (\<lambda>s. (r, s))"

definition bindM :: "('a, 'w) M \<Rightarrow> ('a \<Rightarrow> ('b, 'w) M) \<Rightarrow> ('b, 'w) M" where
  "bindM m k = (\<lambda>s. case m s of (Inl e, s') \<Rightarrow> (Inl e, s') | (Inr x, s') \<Rightarrow> k x s')"

definition thenM :: "('a, 'w) M \<Rightarrow> ('b, 'w) M \<Rightarrow> ('b, 'w) M" where
  "thenM m k = bindM m (\<lambda>_. k)"

definition tryM :: "('a, 'w) M \<Rightarrow> (py_error \<Rightarrow> ('a, 'w) M) \<Rightarrow> ('a, 'w) M" where
  "tryM m h = (\<lambda>s. case m s of (Inl e, s') \<Rightarrow> h e s' | (Inr x, s') \<Rightarrow> (Inr x, s'))"

definition with_self :: "(dubber \<Rightarrow> ('a, 'w) M) \<Rightarrow> ('a, 'w) M" where
  "with_self f = (\<lambda>s. f (fst s) s)"

text \<open>A call of the environment, recorded in the trace with its outcome.\<close>

definition call ::
  "'w environment \<Rightarrow> string \<Rightarrow> pyval list \<Rightarrow> (string \<times> pyval) list \<Rightarrow> (pyval, 'w) M" where
  "call E name args kwargs =
     (\<lambda>(d, w). case E name args kwargs (outside w) of
        (r, out') \<Rightarrow>
          (r, d, w\<lparr>outside := out',
                    trace := trace w @
                      [Event name args kwargs (case r of Inl e \<Rightarrow> Some e | Inr _ \<Rightarrow> None)]\<rparr>))"

definition logging :: "log_level \<Rightarrow> string \<Rightarrow> (unit, 'w) M" where
  "logging lvl msg = (\<lambda>(d, w). (Inr (), d, w\<lparr>logged := logged w @ [(lvl, msg)]\<rparr>))"

text \<open>
  \<^verbatim>\<open>functools.cached_property\<close>: a filled slot is returned as it is and nothing runs; on an
  empty slot the body runs, and its value is stored when it returns one. A body that
  raises leaves the slot empty.
\<close>

definition cached_property ::
  "(dubber \<Rightarrow> 'a option) \<Rightarrow> ('a \<Rightarrow> dubber \<Rightarrow> dubber) \<Rightarrow> ('a, 'w) M \<Rightarrow> ('a, 'w) M" where
  "cached_property slot store body =
     (\<lambda>(d, w). case slot d of
        Some v \<Rightarrow> (Inr v, d, w)
      | None \<Rightarrow>
          (case body (d, w) of
             (Inl e, s') \<Rightarrow> (Inl e, s')
           | (Inr v, d', w') \<Rightarrow> (Inr v, store v d', w')))"

text \<open>A \<^verbatim>\<open>for\<close> loop over a list; a raise in the body leaves the loop.\<close>

fun for_each :: "('a \<Rightarrow> (unit, 'w) M) \<Rightarrow> 'a list \<Rightarrow> (unit, 'w) M" where
  "for_each body [] s = (Inr (), s)"
| "for_each body (x # xs) s =
     (case body x s of (Inl e, s') \<Rightarrow> (Inl e, s') | (Inr _, s') \<Rightarrow> for_each body xs s')"


text \<open>
  \<^verbatim>\<open>Dubber.__init__\<close> with the defaults of its optional arguments: every slot is empty.
\<close>

definition Dubber_init :: "string \<Rightarrow> string \<Rightarrow> string \<Rightarrow> string \<Rightarrow> string \<Rightarrow> bool \<Rightarrow> dubber" where
  "Dubber_init inp out adv orig tgt cl =
     \<lparr>input_file = inp, output_directory = out, advertiser_name = adv,
      original_language = orig, target_language = tgt, number_of_speakers = 1,
      diarization_instructions = PNone, translation_instructions = PNone,
      merge_utterances = True, minimum_merge_threshold = PFloat (1 / 1000),
      preferred_voices = PNone, clean_up = cl,
      pyannote_model = ''pyannote/speaker-diarization-3.1'',
      diarization_system_instructions = ''assets/system_settings_diarization.txt'',
      translation_system_instructions = ''assets/system_settings_translation.txt'',
      cached_device = None, cached_is_video = None, cached_progress_bar = None,
      cached_preprocesing_output = None, cached_speech_to_text_output = None,
      cached_translation_output = None, cached_text_to_speech_output = None,
      cached_postprocessing_output = None\<rparr>"

section \<open>Properties and helpers of the class\<close>

definition device :: "'w environment \<Rightarrow> (string, 'w) M" where
  "device E =
     cached_property cached_device (\<lambda>v d. d\<lparr>cached_device := Some v\<rparr>)
       (bindM (call E ''torch.cuda.is_available'' [] [])
          (\<lambda>available. returnM (if truthy available then ''gpu'' else ''cpu'')))"

definition Dubber_is_video :: "(bool, 'w) M" where
  "Dubber_is_video =
     cached_property cached_is_video (\<lambda>v d. d\<lparr>cached_is_video := Some v\<rparr>)
       (with_self (\<lambda>d. liftE (is_video (input_file d))))"

text \<open>
  \<^verbatim>\<open>get_api_token(self, *, env_variable, provided_token=None)\<close> takes its two parameters by
  keyword only. Both of its callers, \<^verbatim>\<open>pyannote_pipeline\<close> (line 270) and
  \<^verbatim>\<open>configure_gemini_model\<close> (line 305), pass them by position, which Python refuses with
  a \<^verbatim>\<open>TypeError\<close> before the body runs.
\<close>

definition get_api_token_positional :: "(pyval, 'w) M" where
  "get_api_token_positional =
     raiseM (TypeError ''get_api_token() takes 1 positional argument but 3 were given'')"

definition pyannote_pipeline :: "'w environment \<Rightarrow> (pyval, 'w) M" where
  "pyannote_pipeline E =
     with_self (\<lambda>d.
       bindM get_api_token_positional (\<lambda>hugging_face_token.
         call E ''Pipeline.from_pretrained'' [PStr (pyannote_model d)]
           [(''use_auth_token'', hugging_face_token)]))"

definition speech_to_text_model :: "'w environment \<Rightarrow> (pyval, 'w) M" where
  "speech_to_text_model E =
     bindM (device E) (\<lambda>dev.
     bindM (device E) (\<lambda>dev'.
       call E ''WhisperModel'' []
         [(''model_size_or_path'', PStr ''large-v3''), (''device'', PStr dev),
          (''compute_type'', PStr (if dev' = ''gpu'' then ''float16'' else ''int8''))]))"

text \<open>
  \<^verbatim>\<open>configure_gemini_model(self, *, system_instruction)\<close> is called with the keyword
  \<^verbatim>\<open>system_instructions\<close> (lines 400 and 423): the argument is evaluated, and binding it
  raises a \<^verbatim>\<open>TypeError\<close> before the body runs.
\<close>

definition configure_gemini_model_system_instructions :: "string \<Rightarrow> (pyval, 'w) M" where
  "configure_gemini_model_system_instructions instructions =
     raiseM (TypeError
       ''configure_gemini_model() got an unexpected keyword argument 'system_instructions' '')"

definition text_to_speech_client :: "'w environment \<Rightarrow> (pyval, 'w) M" where
  "text_to_speech_client E = call E ''texttospeech.TextToSpeechClient'' [] []"

definition progress_bar :: "(tqdm, 'w) M" where
  "progress_bar =
     cached_property cached_progress_bar (\<lambda>v d. d\<lparr>cached_progress_bar := Some v\<rparr>)
       (with_self (\<lambda>d. returnM
          \<lparr>tqdm_total = (if clean_up d then NUMBER_OF_STEPS else NUMBER_OF_STEPS - 1),
           tqdm_n = 0\<rparr>))"

definition progress_bar_update :: "nat \<Rightarrow> (unit, 'w) M" where
  "progress_bar_update k =
     bindM progress_bar (\<lambda>bar.
       (\<lambda>(d, w). (Inr (), d\<lparr>cached_progress_bar := Some (bar\<lparr>tqdm_n := tqdm_n bar + k\<rparr>)\<rparr>, w)))"

section \<open>The cached stage outputs\<close>

text \<open>
  Lines 546 to 564. The five cached properties call \<^verbatim>\<open>self.preprocessing()\<close>,
  \<^verbatim>\<open>self.speech_to_text()\<close> (three times: for the transcription, the translation and the
  synthesis output alike) and \<^verbatim>\<open>self.postprocessing()\<close>. The class defines the stage methods
  as \<^verbatim>\<open>run_preprocessing\<close>, \<^verbatim>\<open>run_speech_to_text\<close>, \<^verbatim>\<open>run_translation\<close>,
  \<^verbatim>\<open>run_text_to_speech\<close> and \<^verbatim>\<open>run_postprocessing\<close>, and neither it nor \<^verbatim>\<open>__init__\<close> defines
  an attribute named \<^verbatim>\<open>preprocessing\<close>, \<^verbatim>\<open>speech_to_text\<close> or \<^verbatim>\<open>postprocessing\<close>: looking the
  name up raises an \<^verbatim>\<open>AttributeError\<close>.
\<close>

definition no_attribute :: "string \<Rightarrow> ('a, 'w) M" where
  "no_attribute name =
     raiseM (AttributeError (''Dubber object has no attribute '' @ name))"

definition preprocesing_output :: "(pyval, 'w) M" where
  "preprocesing_output =
     cached_property cached_preprocesing_output
       (\<lambda>v d. d\<lparr>cached_preprocesing_output := Some v\<rparr>)
       (no_attribute ''preprocessing'')"

definition speech_to_text_output :: "(pyval, 'w) M" where
  "speech_to_text_output =
     cached_property cached_speech_to_text_output
       (\<lambda>v d. d\<lparr>cached_speech_to_text_output := Some v\<rparr>)
       (no_attribute ''speech_to_text'')"

definition translation_output :: "(pyval, 'w) M" where
  "translation_output =
     cached_property cached_translation_output
       (\<lambda>v d. d\<lparr>cached_translation_output := Some v\<rparr>)
       (no_attribute ''speech_to_text'')"

definition text_to_speech_output :: "(pyval, 'w) M" where
  "text_to_speech_output =
     cached_property cached_text_to_speech_output
       (\<lambda>v d. d\<lparr>cached_text_to_speech_output := Some v\<rparr>)
       (no_attribute ''speech_to_text'')"

definition postprocessing_output :: "(pyval, 'w) M" where
  "postprocessing_output =
     cached_property cached_postprocessing_output
       (\<lambda>v d. d\<lparr>cached_postprocessing_output := Some v\<rparr>)
       (no_attribute ''postprocessing'')"

section \<open>The stages\<close>

text \<open>
  Arguments are evaluated left to right before a call, so a property read in an argument
  runs, and may raise, before the call is made. \<open>attr m name\<close> is the attribute \<open>name\<close> of
  the value of \<open>m\<close>. A local variable read before its first assignment raises an
  \<^verbatim>\<open>UnboundLocalError\<close>: \<^verbatim>\<open>run_translation\<close> (line 434) and \<^verbatim>\<open>run_text_to_speech\<close> (line 459)
  pass \<^verbatim>\<open>utterance_metadata\<close> in the statement that first assigns it.
\<close>

definition attr :: "(pyval, 'w) M \<Rightarrow> string \<Rightarrow> (pyval, 'w) M" where
  "attr m name = bindM m (\<lambda>obj. liftE (py_getattr obj name))"

definition unbound_local :: "string \<Rightarrow> (pyval, 'w) M" where
  "unbound_local name =
     raiseM (UnboundLocalError
       (''cannot access local variable '' @ name @ '' where it is not associated with a value''))"

definition run_preprocessing :: "'w environment \<Rightarrow> (pyval, 'w) M" where
  "run_preprocessing E =
     with_self (\<lambda>d.
     bindM Dubber_is_video (\<lambda>video.
     bindM (if video
            then bindM (call E ''video_processing.split_audio_video'' []
                          [(''video_file'', PStr (input_file d)),
                           (''output_directory'', PStr (output_directory d))])
                   (\<lambda>r. liftE (unpack2 r))
            else returnM (PNone, PStr (input_file d)))
       (\<lambda>(video_file, audio_file).
     bindM (call E ''audio_processing.build_demucs_command'' []
              [(''audio_file'', audio_file),
               (''output_directory'', PStr (output_directory d))])
       (\<lambda>demucs_command.
     thenM (call E ''audio_processing.execute_demcus_command'' []
              [(''command'', demucs_command)])
    (bindM (call E ''audio_processing.assemble_split_audio_file_paths'' []
              [(''command'', demucs_command)])
       (\<lambda>r.
     bindM (liftE (unpack2 r)) (\<lambda>(_, audio_background_file).
     bindM (pyannote_pipeline E) (\<lambda>pipeline.
     bindM (call E ''audio_processing.create_pyannote_timestamps'' []
              [(''audio_file'', audio_file),
               (''number_of_speakers'', PInt (number_of_speakers d)),
               (''pipeline'', pipeline)])
       (\<lambda>utterance_metadata.
     bindM (call E ''audio_processing.cut_and_save_audio'' []
              [(''utterance_metadata'', utterance_metadata),
               (''audio_file'', audio_file),
               (''output_directory'', PStr (output_directory d))])
       (\<lambda>utterance_metadata.
     thenM (logging INFO ''Completed preprocessing.'')
    (thenM (progress_bar_update 1)
    (returnM (PObject ''PreprocessingArtifacts''
       [(''video_file'', video_file), (''audio_file'', audio_file),
        (''audio_background_file'', audio_background_file),
        (''utterance_metadata'', utterance_metadata)])))))))))))))"

definition run_speech_to_text :: "'w environment \<Rightarrow> (pyval, 'w) M" where
  "run_speech_to_text E =
     with_self (\<lambda>d.
     bindM (attr preprocesing_output ''video_file'') (\<lambda>has_video.
     bindM (if truthy has_video then attr preprocesing_output ''video_file''
            else attr preprocesing_output ''audio_file'')
       (\<lambda>media_file.
     bindM (attr preprocesing_output ''utterance_metadata'') (\<lambda>chunks.
     bindM (speech_to_text_model E) (\<lambda>model.
     bindM (call E ''speech_to_text.transcribe_audio_chunks'' []
              [(''utterance_metadata'', chunks),
               (''advertiser_name'', PStr (advertiser_name d)),
               (''original_language'', PStr (original_language d)),
               (''model'', model)])
       (\<lambda>utterance_metadata.
     bindM (configure_gemini_model_system_instructions (diarization_system_instructions d))
       (\<lambda>speaker_diarization_model.
     bindM (call E ''speech_to_text.diarize_speakers'' []
              [(''file'', media_file), (''utterance_metadata'', utterance_metadata),
               (''model'', speaker_diarization_model),
               (''diarization_instructions'', diarization_instructions d)])
       (\<lambda>speaker_info.
     bindM (call E ''speech_to_text.add_speaker_info'' []
              [(''utterance_metadata'', utterance_metadata),
               (''speaker_info'', speaker_info)])
       (\<lambda>utterance_metadata.
     thenM (logging INFO ''Completed transcription.'')
    (thenM (progress_bar_update 1)
    (returnM utterance_metadata)))))))))))"

definition run_translation :: "'w environment \<Rightarrow> (pyval, 'w) M" where
  "run_translation E =
     with_self (\<lambda>d.
     bindM speech_to_text_output (\<lambda>transcribed.
     bindM (call E ''translation.generate_script'' [] [(''utterance_metadata'', transcribed)])
       (\<lambda>script.
     bindM (configure_gemini_model_system_instructions (translation_system_instructions d))
       (\<lambda>translation_model.
     bindM (call E ''translation.translate_script'' []
              [(''script'', script),
               (''advertiser_name'', PStr (advertiser_name d)),
               (''translation_instructions'', translation_instructions d),
               (''target_language'', PStr (target_language d)),
               (''model'', translation_model)])
       (\<lambda>translated_script.
     bindM (unbound_local ''utterance_metadata'') (\<lambda>unassigned.
     bindM (call E ''translation.add_translations'' []
              [(''utterance_metadata'', unassigned),
               (''translated_script'', translated_script)])
       (\<lambda>utterance_metadata.
     bindM (if merge_utterances d
            then call E ''translation.merge_utterances'' []
                   [(''utterance_metadata'', utterance_metadata),
                    (''minimum_merge_threshold'', minimum_merge_threshold d)]
            else returnM utterance_metadata)
       (\<lambda>utterance_metadata.
     thenM (logging INFO ''Completed translation.'')
    (thenM (progress_bar_update 1)
    (returnM utterance_metadata))))))))))"

definition run_text_to_speech :: "'w environment \<Rightarrow> (pyval, 'w) M" where
  "run_text_to_speech E =
     with_self (\<lambda>d.
     bindM translation_output (\<lambda>translated.
     bindM (call E ''text_to_speech.assign_voices'' []
              [(''utterance_metadata'', translated),
               (''target_language'', PStr (target_language d)),
               (''preferred_voices'', preferred_voices d)])
       (\<lambda>assigned_voices.
     bindM (unbound_local ''utterance_metadata'') (\<lambda>unassigned.
     bindM (call E ''text_to_speech.update_utterance_metadata'' []
              [(''utterance_metadata'', unassigned),
               (''assigned_voices'', assigned_voices)])
       (\<lambda>utterance_metadata.
     bindM (text_to_speech_client E) (\<lambda>client.
     bindM (call E ''text_to_speech.dub_utterances'' []
              [(''client'', client), (''utterance_metadata'', utterance_metadata),
               (''output_directory'', PStr (output_directory d)),
               (''target_language'', PStr (target_language d))])
       (\<lambda>utterance_metadata.
     thenM (logging INFO ''Completed converting text to speech.'')
    (thenM (progress_bar_update 1)
    (returnM utterance_metadata)))))))))"

definition run_postprocessing :: "'w environment \<Rightarrow> (pyval, 'w) M" where
  "run_postprocessing E =
     with_self (\<lambda>d.
     bindM text_to_speech_output (\<lambda>dubbed.
     bindM (attr preprocesing_output ''audio_background_file'') (\<lambda>background.
     bindM (call E ''audio_processing.insert_audio_at_timestamps'' []
              [(''utterance_metadata'', dubbed),
               (''background_audio_file'', background),
               (''output_directory'', PStr (output_directory d))])
       (\<lambda>dubbed_audio_vocals_file.
     bindM (attr preprocesing_output ''audio_background_file'') (\<lambda>background'.
     bindM (call E ''audio_processing.merge_background_and_vocals'' []
              [(''background_audio_file'', background'),
               (''dubbed_vocals_audio_file'', dubbed_audio_vocals_file),
               (''output_directory'', PStr (output_directory d))])
       (\<lambda>dubbed_audio_file.
     bindM Dubber_is_video (\<lambda>video.
     bindM (if video
            then bindM (attr preprocesing_output ''video_file'') (\<lambda>has_video.
                 if \<not> truthy has_video
                 then raiseM (ValueError
                   ''A video file must be provided if the input file is a video.'')
                 else bindM (attr preprocesing_output ''video_file'') (\<lambda>video_file.
                      call E ''video_processing.combine_audio_video'' []
                        [(''video_file'', video_file),
                         (''dubbed_audio_file'', dubbed_audio_file),
                         (''output_directory'', PStr (output_directory d))]))
            else returnM dubbed_audio_file)
       (\<lambda>output_file.
     thenM (logging INFO ''Completed postprocessing.'')
    (thenM (progress_bar_update 1)
    (returnM output_file))))))))))"

text \<open>
  Lines 504 to 520. The parameter \<^verbatim>\<open>keep_files\<close> is overwritten by the list holding the
  cached final output. For each listed name the path is joined, the name (not the path)
  is looked up in the keep list, and an existing path is removed; the directory branch is
  tried only for a path that does not exist. No statement of the loop catches an exception.
\<close>

definition clean_entry ::
  "'w environment \<Rightarrow> string \<Rightarrow> pyval list \<Rightarrow> pyval \<Rightarrow> (unit, 'w) M" where
  "clean_entry E directory keep_files filename =
     bindM (liftE (os_path_join directory filename)) (\<lambda>file_path.
       if filename \<in> set keep_files then returnM ()
       else bindM (call E ''tf.io.gfile.exists'' [PStr file_path] []) (\<lambda>found.
            if truthy found
            then thenM (call E ''tf.io.gfile.remove'' [PStr file_path] []) (returnM ())
            else bindM (call E ''tf.io.gfile.isdir'' [PStr file_path] []) (\<lambda>is_dir.
                 if truthy is_dir
                 then thenM (call E ''shutil.rmtree'' [PStr file_path] []) (returnM ())
                 else returnM ())))"

definition run_clean_directory :: "'w environment \<Rightarrow> pyval \<Rightarrow> (unit, 'w) M" where
  "run_clean_directory E keep_files_argument =
     with_self (\<lambda>d.
     bindM postprocessing_output (\<lambda>final.
     bindM (call E ''tf.io.gfile.listdir'' [PStr (output_directory d)] []) (\<lambda>listing.
     bindM (liftE (py_iter listing)) (\<lambda>filenames.
     thenM (for_each (clean_entry E (output_directory d) [final]) filenames)
    (thenM (logging INFO ''Temporary artifacts are now removed.'')
    (progress_bar_update 1))))))"

text \<open>
  \<^verbatim>\<open>dub_ad\<close> calls \<^verbatim>\<open>self.run_clean_directory()\<close> with no argument (line 577), which the
  required parameter \<^verbatim>\<open>keep_files\<close> makes a \<^verbatim>\<open>TypeError\<close>.
\<close>

definition run_clean_directory_without_arguments :: "(unit, 'w) M" where
  "run_clean_directory_without_arguments =
     raiseM (TypeError
       ''run_clean_directory() missing 1 required positional argument: 'keep_files' '')"

text \<open>
  Lines 522 to 539. \<^verbatim>\<open>with tf.io.gfile.GFile(path, "w") as json_file\<close> opens the file, runs
  the body and then closes the file whether or not the body raised; an exception of
  \<^verbatim>\<open>close\<close> replaces the body's, and the exit returns nothing, so the body's exception is
  raised again otherwise. The \<^verbatim>\<open>try\<close> statement encloses the \<^verbatim>\<open>with\<close> statement and the
  success message; its handler logs a warning. The path is returned after it.
\<close>

definition with_GFile ::
  "'w environment \<Rightarrow> string \<Rightarrow> string \<Rightarrow> (pyval \<Rightarrow> (unit, 'w) M) \<Rightarrow> (unit, 'w) M" where
  "with_GFile E path mode body =
     bindM (call E ''tf.io.gfile.GFile'' [PStr path, PStr mode] []) (\<lambda>file.
       (\<lambda>s. case body file s of
          (r, s') \<Rightarrow>
            (case call E ''tf.io.gfile.GFile.close'' [file] [] s' of
               (Inl e, s'') \<Rightarrow> (Inl e, s'')
             | (Inr _, s'') \<Rightarrow> (r, s''))))"

definition run_save_utterance_metadata :: "'w environment \<Rightarrow> (pyval, 'w) M" where
  "run_save_utterance_metadata E =
     with_self (\<lambda>d.
     bindM (liftE (os_path_join (output_directory d) (PStr UTTERNACE_METADATA_FILE_NAME)))
       (\<lambda>utterance_metadata_file.
     thenM (tryM
              (thenM (with_GFile E utterance_metadata_file ''w'' (\<lambda>json_file.
                        bindM text_to_speech_output (\<lambda>dubbed.
                          thenM (call E ''json.dump'' [dubbed, json_file] [])
                            (returnM ()))))
                 (logging INFO (''Utterance metadata saved successfully to ''
                    @ [CHR 0x27] @ utterance_metadata_file @ [CHR 0x27])))
              (\<lambda>e. logging WARNING (''Error saving utterance metadata: '' @ str_of_error e)))
       (returnM (PStr utterance_metadata_file))))"

text \<open>
  Lines 566 to 582. The two readings of the clock are left out and a message with
  arguments is recorded as its format string.
\<close>

definition dub_ad :: "'w environment \<Rightarrow> (pyval, 'w) M" where
  "dub_ad E =
     with_self (\<lambda>d.
     thenM (logging INFO ''Dubbing process starting...'')
    (thenM (run_preprocessing E)
    (thenM (run_speech_to_text E)
    (thenM (run_translation E)
    (thenM (run_text_to_speech E)
    (thenM (run_save_utterance_metadata E)
    (thenM (run_postprocessing E)
    (thenM (if clean_up d then run_clean_directory_without_arguments else returnM ())
    (thenM (logging INFO ''Dubbing process finished.'')
    (thenM (logging INFO ''Total execution time: %.2f seconds.'')
    (bindM postprocessing_output (\<lambda>saved.
     thenM (logging INFO ''Output file saved under: %s.'')
       postprocessing_output))))))))))))"

section \<open>A concrete environment\<close>

text \<open>
  A small outside world for concrete runs: an output directory with the names it lists,
  paths that cannot be removed or opened (for which \<^verbatim>\<open>remove\<close> and \<^verbatim>\<open>GFile\<close> raise), and
  calls that are broken and raise whenever made. Every other call returns \<^verbatim>\<open>None\<close>, or a
  pair of paths where the caller unpacks one.
\<close>

record disk =
  disk_dir :: string
  disk_names :: "string list"
  disk_locked :: "string list"
  disk_broken :: "string list"

definition disk_env :: "disk environment" where
  "disk_env name args kwargs dk =
     (if name \<in> set (disk_broken dk) then (Inl (Raised (name @ '' failed'')), dk)
      else if name = ''tf.io.gfile.listdir''
        then (Inr (PList (map PStr (disk_names dk))), dk)
      else if name = ''tf.io.gfile.exists''
        then (Inr (PBool (args \<in> set (map (\<lambda>n. [PStr (posix_join (disk_dir dk) n)])
                                          (disk_names dk)))), dk)
      else if name = ''tf.io.gfile.remove''
        then (if args \<in> set (map (\<lambda>p. [PStr p]) (disk_locked dk))
              then (Inl (Raised ''Permission denied''), dk)
              else (Inr PNone,
                    dk\<lparr>disk_names :=
                         filter (\<lambda>n. [PStr (posix_join (disk_dir dk) n)] \<noteq> args)
                           (disk_names dk)\<rparr>))
      else if name = ''tf.io.gfile.GFile''
        then (if take 1 args \<in> set (map (\<lambda>p. [PStr p]) (disk_locked dk))
              then (Inl (Raised ''Permission denied''), dk)
              else (Inr (PObject ''GFile'' []), dk))
      else if name = ''video_processing.split_audio_video''
        then (Inr (PTuple [PStr ''out/video.mp4'', PStr ''out/audio.mp3'']), dk)
      else if name = ''audio_processing.assemble_split_audio_file_paths''
        then (Inr (PTuple [PStr ''out/vocals.wav'', PStr ''out/no_vocals.wav'']), dk)
      else (Inr PNone, dk))"

definition fresh_world :: "disk \<Rightarrow> disk world" where
  "fresh_world dk = \<lparr>outside = dk, trace = [], logged = []\<rparr>"

text \<open>
  Concrete inputs. The output directory lists three files, of which \<^verbatim>\<open>out/b.wav\<close> cannot be
  removed; on \<open>locked_disk\<close> the metadata file cannot be opened; on \<open>broken_disk\<close> the merge of
  background and vocals raises. \<open>example_dubber\<close> is a newly constructed \<^verbatim>\<open>Dubber\<close> for an
  audio file. \<open>staged_dubber\<close> is one to whose cached properties the outputs of the
  preprocessing, synthesis and postprocessing stages have been assigned, as
  \<^verbatim>\<open>dubber.postprocessing_output = ...\<close> does.
\<close>

definition example_disk :: disk where
  "example_disk =
     \<lparr>disk_dir = ''out'', disk_names = [''a.wav'', ''b.wav'', ''c.wav''],
      disk_locked = [''out/b.wav''], disk_broken = []\<rparr>"

definition locked_disk :: disk where
  "locked_disk = example_disk\<lparr>disk_locked := [''out/utterance_metadata.json'']\<rparr>"


definition example_dubber :: "bool \<Rightarrow> dubber" where
  "example_dubber cl = Dubber_init ''ad.mp3'' ''out'' ''Advertiser'' ''en'' ''pl'' cl"

definition staged_dubber :: dubber where
  "staged_dubber =
     (example_dubber True)
       \<lparr>cached_preprocesing_output := Some (PObject ''PreprocessingArtifacts''
          [(''video_file'', PNone), (''audio_file'', PStr ''ad.mp3''),
           (''audio_background_file'', PStr ''out/no_vocals.wav''),
           (''utterance_metadata'', PList [])]),
        cached_text_to_speech_output := Some (PList []),
        cached_postprocessing_output := Some (PStr ''out/dubbed_audio.mp3'')\<rparr>"

section \<open>Properties of a piece of code\<close>

text \<open>
  The outcome and the name of a recorded call, and the errors of the failed calls of a
  trace, in order.
\<close>

fun event_outcome :: "event \<Rightarrow> py_error option" where
  "event_outcome (Event name args kwargs outcome) = outcome"

fun event_name :: "event \<Rightarrow> string" where
  "event_name (Event name args kwargs outcome) = name"


text \<open>
  \<open>propagated evs r\<close>: in the calls \<open>evs\<close> made by a piece of code with result \<open>r\<close>, a call
  that failed is the last call made, and \<open>r\<close> is the raise of that call's own error. A
  piece of code is \<open>fail_fast\<close> when this holds of the calls it adds to the trace, from
  every state: no failure of a call is caught, replaced or followed by further calls.
\<close>

fun propagated :: "event list \<Rightarrow> py_error + 'a \<Rightarrow> bool" where
  "propagated [] r = True"
| "propagated (ev # evs) r =
     (case event_outcome ev of
        None \<Rightarrow> propagated evs r
      | Some e \<Rightarrow> evs = [] \<and> r = Inl e)"

definition fail_fast :: "('a, 'w) M \<Rightarrow> bool" where
  "fail_fast m =
     (\<forall>s. \<exists>evs. trace (snd (snd (m s))) = trace (snd s) @ evs \<and> propagated evs (fst (m s)))"

text \<open>
  Two more properties used in proofs: a piece of code that raises from every state, and
  one that never touches the progress bar.
\<close>

definition always_raises :: "('a, 'w) M \<Rightarrow> bool" where
  "always_raises m = (\<forall>s. isl (fst (m s)))"

definition keeps_bar :: "('a, 'w) M \<Rightarrow> bool" where
  "keeps_bar m = (\<forall>s. cached_progress_bar (fst (snd (m s))) = cached_progress_bar (fst s))"

section \<open>Properties of attribution application\<close>

lemma update_absent_appends:
  "k \<notin> fst ` set al \<Longrightarrow> AList.update k v al = al @ [(k, v)]"
  by (induction al) auto

lemma attach_speaker_lookup:
  "map_of (attach_speaker u sp) k =
     (if k = ''ssml_gender'' then Some (PStr (snd sp))
      else if k = ''speaker_id'' then Some (PStr (fst sp))
      else map_of u k)"
  by (simp add: attach_speaker_def update_conv')

lemma attach_speaker_fresh:
  assumes "''speaker_id'' \<notin> fst ` set u" and "''ssml_gender'' \<notin> fst ` set u"
  shows "attach_speaker u sp =
           u @ [(''speaker_id'', PStr (fst sp)), (''ssml_gender'', PStr (snd sp))]"
proof -
  have first: "AList.update ''speaker_id'' (PStr (fst sp)) u = u @ [(''speaker_id'', PStr (fst sp))]"
    using assms(1) by (rule update_absent_appends)
  have "''ssml_gender'' \<notin> fst ` set (u @ [(''speaker_id'', PStr (fst sp))])"
    using assms(2) by simp
  then show ?thesis
    unfolding attach_speaker_def first by (simp add: update_absent_appends)
qed

text \<open>
  Claim C8. Whenever the utterance list and the speaker-info list differ in length,
  whichever is longer, \<open>add_speaker_info\<close> fails with a \<^verbatim>\<open>ValueError\<close>. On lists of equal
  length it returns as many utterances as it was given; utterance \<open>i\<close> carries the
  speaker id and the gender of tuple \<open>i\<close>, every other key of utterance \<open>i\<close> keeps its
  value, and an utterance that had neither key before is the old utterance, unchanged and
  in its order, followed by the two new fields.
\<close>

theorem add_speaker_info_positional:
  "(length um \<noteq> length si \<longrightarrow> (\<exists>msg. add_speaker_info um si = Inl (ValueError msg)))
   \<and> (length um = length si \<longrightarrow>
        (\<exists>res. add_speaker_info um si = Inr res \<and> length res = length um
          \<and> (\<forall>i<length um.
                map_of (res ! i) ''speaker_id'' = Some (PStr (fst (si ! i)))
              \<and> map_of (res ! i) ''ssml_gender'' = Some (PStr (snd (si ! i)))
              \<and> (\<forall>k. k \<noteq> ''speaker_id'' \<longrightarrow> k \<noteq> ''ssml_gender'' \<longrightarrow>
                     map_of (res ! i) k = map_of (um ! i) k)
              \<and> (''speaker_id'' \<notin> fst ` set (um ! i) \<longrightarrow>
                 ''ssml_gender'' \<notin> fst ` set (um ! i) \<longrightarrow>
                   res ! i = um ! i @ [(''speaker_id'', PStr (fst (si ! i))),
                                       (''ssml_gender'', PStr (snd (si ! i)))]))))"
proof (intro conjI impI)
  assume "length um \<noteq> length si"
  then show "\<exists>msg. add_speaker_info um si = Inl (ValueError msg)"
    by (simp add: add_speaker_info_def)
next
  assume len: "length um = length si"
  let ?res = "map (\<lambda>(u, sp). attach_speaker u sp) (zip um si)"
  have run: "add_speaker_info um si = Inr ?res"
    using len by (simp add: add_speaker_info_def)
  have at: "?res ! i = attach_speaker (um ! i) (si ! i)" if "i < length um" for i
    using that len by simp
  have "\<forall>i<length um.
          map_of (?res ! i) ''speaker_id'' = Some (PStr (fst (si ! i)))
        \<and> map_of (?res ! i) ''ssml_gender'' = Some (PStr (snd (si ! i)))
        \<and> (\<forall>k. k \<noteq> ''speaker_id'' \<longrightarrow> k \<noteq> ''ssml_gender'' \<longrightarrow>
               map_of (?res ! i) k = map_of (um ! i) k)
        \<and> (''speaker_id'' \<notin> fst ` set (um ! i) \<longrightarrow>
           ''ssml_gender'' \<notin> fst ` set (um ! i) \<longrightarrow>
             ?res ! i = um ! i @ [(''speaker_id'', PStr (fst (si ! i))),
                                  (''ssml_gender'', PStr (snd (si ! i)))])"
  proof (intro allI impI)
    fix i assume i: "i < length um"
    show "map_of (?res ! i) ''speaker_id'' = Some (PStr (fst (si ! i)))
        \<and> map_of (?res ! i) ''ssml_gender'' = Some (PStr (snd (si ! i)))
        \<and> (\<forall>k. k \<noteq> ''speaker_id'' \<longrightarrow> k \<noteq> ''ssml_gender'' \<longrightarrow>
               map_of (?res ! i) k = map_of (um ! i) k)
        \<and> (''speaker_id'' \<notin> fst ` set (um ! i) \<longrightarrow>
           ''ssml_gender'' \<notin> fst ` set (um ! i) \<longrightarrow>
             ?res ! i = um ! i @ [(''speaker_id'', PStr (fst (si ! i))),
                                  (''ssml_gender'', PStr (snd (si ! i)))])"
      unfolding at [OF i]
      by (simp add: attach_speaker_lookup attach_speaker_fresh)
  qed
  moreover have "length ?res = length um"
    using len by simp
  ultimately show "\<exists>res. add_speaker_info um si = Inr res \<and> length res = length um
          \<and> (\<forall>i<length um.
                map_of (res ! i) ''speaker_id'' = Some (PStr (fst (si ! i)))
              \<and> map_of (res ! i) ''ssml_gender'' = Some (PStr (snd (si ! i)))
              \<and> (\<forall>k. k \<noteq> ''speaker_id'' \<longrightarrow> k \<noteq> ''ssml_gender'' \<longrightarrow>
                     map_of (res ! i) k = map_of (um ! i) k)
              \<and> (''speaker_id'' \<notin> fst ` set (um ! i) \<longrightarrow>
                 ''ssml_gender'' \<notin> fst ` set (um ! i) \<longrightarrow>
                   res ! i = um ! i @ [(''speaker_id'', PStr (fst (si ! i))),
                                       (''ssml_gender'', PStr (snd (si ! i)))]))"
    using run by blast
qed

theorem add_speaker_info_positional_witness:
  "length [[(''text'', PStr ''Hello''), (''start'', PFloat 0), (''stop'', PFloat 1)],
           [(''text'', PStr ''world''), (''start'', PFloat 1), (''stop'', PFloat 2)]]
     = length [(''speaker1'', ''male''), (''speaker2'', ''female'')]
   \<and> add_speaker_info
       [[(''text'', PStr ''Hello''), (''start'', PFloat 0), (''stop'', PFloat 1)],
        [(''text'', PStr ''world''), (''start'', PFloat 1), (''stop'', PFloat 2)]]
       [(''speaker1'', ''male''), (''speaker2'', ''female'')]
     = Inr [[(''text'', PStr ''Hello''), (''start'', PFloat 0), (''stop'', PFloat 1),
             (''speaker_id'', PStr ''speaker1''), (''ssml_gender'', PStr ''male'')],
            [(''text'', PStr ''world''), (''start'', PFloat 1), (''stop'', PFloat 2),
             (''speaker_id'', PStr ''speaker2''), (''ssml_gender'', PStr ''female'')]]
   \<and> length [[(''text'', PStr ''Hello''), (''start'', PFloat 0), (''stop'', PFloat 1)],
             [(''text'', PStr ''world''), (''start'', PFloat 1), (''stop'', PFloat 2)]]
     \<noteq> length [(''speaker1'', ''male'')]
   \<and> (\<exists>msg. add_speaker_info
         [[(''text'', PStr ''Hello''), (''start'', PFloat 0), (''stop'', PFloat 1)],
          [(''text'', PStr ''world''), (''start'', PFloat 1), (''stop'', PFloat 2)]]
         [(''speaker1'', ''male'')] = Inl (ValueError msg))"
  using add_speaker_info_positional
      [of "[[(''text'', PStr ''Hello''), (''start'', PFloat 0), (''stop'', PFloat 1)],
            [(''text'', PStr ''world''), (''start'', PFloat 1), (''stop'', PFloat 2)]]"
          "[(''speaker1'', ''male''), (''speaker2'', ''female'')]"]
    add_speaker_info_positional
      [of "[[(''text'', PStr ''Hello''), (''start'', PFloat 0), (''stop'', PFloat 1)],
            [(''text'', PStr ''world''), (''start'', PFloat 1), (''stop'', PFloat 2)]]"
          "[(''speaker1'', ''male'')]"]
  by (simp add: add_speaker_info_def attach_speaker_def)

section \<open>Properties of the poller\<close>

lemma poll_total:
  assumes "0 < i"
  shows "\<exists>r. poll q mw i k = Some r"
proof (induction "Suc mw - k * i" arbitrary: k rule: less_induct)
  case less
  show ?case
  proof (cases "q k")
    case Pending
    show ?thesis
    proof (cases "mw < k * i")
      case True
      with Pending show ?thesis by (subst poll.simps) simp
    next
      case False
      then have "Suc mw - Suc k * i < Suc mw - k * i" using assms by simp
      from less [OF this] obtain r where "poll q mw i (Suc k) = Some r" by blast
      with Pending False show ?thesis by (subst poll.simps) simp
    qed
  next
    case Active
    then show ?thesis by (subst poll.simps) simp
  next
    case Failed
    then show ?thesis by (subst poll.simps) simp
  qed
qed

lemma poll_pending_timeout:
  assumes "0 < i" and "\<forall>j. j * i \<le> mw + i \<longrightarrow> q j = Pending" and "k * i \<le> mw + i"
  shows "\<exists>n. poll q mw i k = Some (Inl RemoteAssetTimeout, n) \<and> mw < n * i \<and> k \<le> n
           \<and> (\<forall>j. k \<le> j \<longrightarrow> j < n \<longrightarrow> j * i \<le> mw)"
  using assms(3)
proof (induction "Suc mw - k * i" arbitrary: k rule: less_induct)
  case less
  have p: "q k = Pending" using assms(2) less.prems by simp
  show ?case
  proof (cases "mw < k * i")
    case True
    have "poll q mw i k = Some (Inl RemoteAssetTimeout, k)"
      using p True by (subst poll.simps) simp
    with True show ?thesis by auto
  next
    case False
    then have smaller: "Suc mw - Suc k * i < Suc mw - k * i" using assms(1) by simp
    have "Suc k * i \<le> mw + i" using False by simp
    from less.hyps [OF smaller this]
    obtain n where n: "poll q mw i (Suc k) = Some (Inl RemoteAssetTimeout, n)"
      "mw < n * i" "Suc k \<le> n" "\<forall>j. Suc k \<le> j \<longrightarrow> j < n \<longrightarrow> j * i \<le> mw" by blast
    have "poll q mw i k = Some (Inl RemoteAssetTimeout, n)"
      using p False n(1) by (subst poll.simps) simp
    moreover have "\<forall>j. k \<le> j \<longrightarrow> j < n \<longrightarrow> j * i \<le> mw"
    proof (intro allI impI)
      fix j assume "k \<le> j" "j < n"
      show "j * i \<le> mw"
      proof (cases "j = k")
        case True then show ?thesis using False by simp
      next
        case False
        then have "Suc k \<le> j" using \<open>k \<le> j\<close> by simp
        then show ?thesis using n(4) \<open>j < n\<close> by blast
      qed
    qed
    ultimately show ?thesis using n(2,3) by auto
  qed
qed

text \<open>
  Claim C6. A handle that is pending at the first query and active at the next one
  makes the poller return success after exactly one re-query. With a positive interval, a
  handle that stays pending at every query made until the elapsed time exceeds \<open>max_wait\<close>
  makes the poller raise \<open>RemoteAssetTimeout\<close>, at the first query past \<open>max_wait\<close>.
  A handle that reports failed at the first query makes the poller raise
  \<open>RemoteAssetFailed\<close> with no re-query at all. The two errors are different values, and
  with a positive interval the poller always returns.
\<close>

theorem wait_until_active_outcomes:
  "(query_status h 0 = Pending \<longrightarrow> query_status h 1 = Active \<longrightarrow>
      wait_until_active h query_status max_wait poll_interval = Some (Inr (), 1))
   \<and> (0 < poll_interval \<longrightarrow>
       (\<forall>j. j * poll_interval \<le> max_wait + poll_interval \<longrightarrow> query_status h j = Pending) \<longrightarrow>
       (\<exists>n. wait_until_active h query_status max_wait poll_interval
              = Some (Inl RemoteAssetTimeout, n)
            \<and> max_wait < n * poll_interval \<and> (\<forall>j<n. j * poll_interval \<le> max_wait)))
   \<and> (query_status h 0 = Failed \<longrightarrow>
       wait_until_active h query_status max_wait poll_interval = Some (Inl RemoteAssetFailed, 0))
   \<and> RemoteAssetTimeout \<noteq> RemoteAssetFailed
   \<and> (0 < poll_interval \<longrightarrow>
       (\<exists>r. wait_until_active h query_status max_wait poll_interval = Some r))"
proof (intro conjI impI)
  assume "query_status h 0 = Pending" and "query_status h 1 = Active"
  then show "wait_until_active h query_status max_wait poll_interval = Some (Inr (), 1)"
    unfolding wait_until_active_def
    by (subst poll.simps, simp, subst poll.simps, simp)
next
  assume pos: "0 < poll_interval"
    and pend: "\<forall>j. j * poll_interval \<le> max_wait + poll_interval \<longrightarrow> query_status h j = Pending"
  from poll_pending_timeout [OF pos pend, of 0]
  obtain n where "poll (query_status h) max_wait poll_interval 0 = Some (Inl RemoteAssetTimeout, n)"
    "max_wait < n * poll_interval" "\<forall>j. 0 \<le> j \<longrightarrow> j < n \<longrightarrow> j * poll_interval \<le> max_wait"
    by auto
  then show "\<exists>n. wait_until_active h query_status max_wait poll_interval
              = Some (Inl RemoteAssetTimeout, n)
            \<and> max_wait < n * poll_interval \<and> (\<forall>j<n. j * poll_interval \<le> max_wait)"
    unfolding wait_until_active_def by auto
next
  assume "query_status h 0 = Failed"
  then show "wait_until_active h query_status max_wait poll_interval = Some (Inl RemoteAssetFailed, 0)"
    unfolding wait_until_active_def by (subst poll.simps) simp
next
  show "RemoteAssetTimeout \<noteq> RemoteAssetFailed" by simp
next
  assume "0 < poll_interval"
  then show "\<exists>r. wait_until_active h query_status max_wait poll_interval = Some r"
    unfolding wait_until_active_def by (rule poll_total)
qed

theorem wait_until_active_outcomes_witness:
  "pending_then_active () 0 = Pending \<and> pending_then_active () 1 = Active
   \<and> wait_until_active () pending_then_active 300 10 = Some (Inr (), 1)
   \<and> (0::nat) < 10
   \<and> wait_until_active () always_pending 25 10 = Some (Inl RemoteAssetTimeout, 3)
   \<and> failed_at_once () 0 = Failed
   \<and> wait_until_active () failed_at_once 300 10 = Some (Inl RemoteAssetFailed, 0)"
proof -
  have a: "pending_then_active () 0 = Pending" "pending_then_active () 1 = Active"
    by (simp_all add: pending_then_active_def)
  have c: "failed_at_once () 0 = Failed" by (simp add: failed_at_once_def)
  have p: "\<forall>j. j * 10 \<le> 25 + 10 \<longrightarrow> always_pending () j = Pending"
    by (simp add: always_pending_def)
  from wait_until_active_outcomes [of always_pending "()" 25 10] p
  obtain n where n: "wait_until_active () always_pending 25 10 = Some (Inl RemoteAssetTimeout, n)"
    "25 < n * 10" "\<forall>j<n. j * 10 \<le> 25" by force
  have "n = 3"
  proof (rule ccontr)
    assume "n \<noteq> 3"
    then have "n < 3 \<or> 3 < n" by auto
    then show False
    proof
      assume "n < 3" then show False using n(2) by simp
    next
      assume "3 < n" then have "3 * 10 \<le> (25::nat)" using n(3) by blast
      then show False by simp
    qed
  qed
  with n(1) a c wait_until_active_outcomes [of pending_then_active "()" 300 10]
    wait_until_active_outcomes [of failed_at_once "()" 300 10]
  show ?thesis by simp
qed

section \<open>Sequencing\<close>




section \<open>Code that always raises\<close>

lemma always_raises_raiseM: "always_raises (raiseM e)"
  by (simp add: always_raises_def raiseM_def)

lemma always_raises_bind_left: "always_raises m \<Longrightarrow> always_raises (bindM m k)"
  unfolding always_raises_def bindM_def
  by (auto split: prod.splits sum.splits) (metis fst_conv sum.disc(2))

lemma always_raises_bind_right: "(\<And>x. always_raises (k x)) \<Longrightarrow> always_raises (bindM m k)"
  unfolding always_raises_def bindM_def
  by (auto split: prod.splits sum.splits)

lemma always_raises_then_left: "always_raises m \<Longrightarrow> always_raises (thenM m k)"
  unfolding thenM_def by (rule always_raises_bind_left)

lemma always_raises_then_right: "always_raises k \<Longrightarrow> always_raises (thenM m k)"
  unfolding thenM_def by (rule always_raises_bind_right)

lemma always_raises_with_self: "(\<And>d. always_raises (f d)) \<Longrightarrow> always_raises (with_self f)"
  unfolding always_raises_def with_self_def by simp

lemma always_raises_prod: "(\<And>a b. always_raises (f a b)) \<Longrightarrow> always_raises (case p of (a, b) \<Rightarrow> f a b)"
  by (cases p) simp

lemma pyannote_pipeline_raises: "always_raises (pyannote_pipeline E)"
  unfolding pyannote_pipeline_def get_api_token_positional_def
  by (intro always_raises_with_self always_raises_bind_left always_raises_raiseM)

lemma run_preprocessing_raises: "always_raises (run_preprocessing E)"
  unfolding run_preprocessing_def
  apply (rule always_raises_with_self)
  apply (rule always_raises_bind_right)
  apply (rule always_raises_bind_right)
  apply (rule always_raises_prod)
  apply (rule always_raises_bind_right)
  apply (rule always_raises_then_right)
  apply (rule always_raises_bind_right)
  apply (rule always_raises_bind_right)
  apply (rule always_raises_prod)
  apply (rule always_raises_bind_left)
  apply (rule pyannote_pipeline_raises)
  done

lemma dub_ad_raises: "always_raises (dub_ad E)"
  unfolding dub_ad_def
  apply (rule always_raises_with_self)
  apply (rule always_raises_then_right)
  apply (rule always_raises_then_left)
  apply (rule run_preprocessing_raises)
  done


section \<open>Failures of calls propagate\<close>

lemma propagated_returned:
  "propagated evs (Inr x) \<Longrightarrow> list_all (\<lambda>ev. event_outcome ev = None) evs"
  by (induction evs) (auto split: option.splits)

lemma propagated_append:
  "list_all (\<lambda>ev. event_outcome ev = None) evs \<Longrightarrow> propagated evs' r \<Longrightarrow> propagated (evs @ evs') r"
  by (induction evs) auto

lemma propagated_raise: "propagated evs (Inl e :: py_error + 'a) \<Longrightarrow> propagated evs (Inl e :: py_error + 'b)"
  by (induction evs) (auto split: option.splits)

lemma propagated_split:
  "propagated evs r \<Longrightarrow> evs = pre @ ev # post \<Longrightarrow> event_outcome ev = Some e \<Longrightarrow>
     post = [] \<and> r = Inl e"
proof (induction pre arbitrary: evs)
  case Nil
  then show ?case by simp
next
  case (Cons a pre)
  then obtain evs' where evs: "evs = a # evs'" "evs' = pre @ ev # post" by simp
  with Cons.prems(1) have "event_outcome a = None" and "propagated evs' r"
    by (auto split: option.splits)
  from Cons.IH [OF this(2) evs(2) Cons.prems(3)] show ?case .
qed

lemma fail_fast_returnM: "fail_fast (returnM x)"
  by (simp add: fail_fast_def returnM_def)

lemma fail_fast_raiseM: "fail_fast (raiseM e)"
  by (simp add: fail_fast_def raiseM_def)

lemma fail_fast_liftE: "fail_fast (liftE r)"
  by (simp add: fail_fast_def liftE_def)

lemma fail_fast_logging: "fail_fast (logging lvl msg)"
  by (simp add: fail_fast_def logging_def split: prod.splits)

lemma fail_fast_call: "fail_fast (call E name args kwargs)"
  by (auto simp: fail_fast_def call_def split: prod.splits sum.splits)

lemma fail_fast_bindM:
  fixes m :: "('a, 'w) M" and k :: "'a \<Rightarrow> ('b, 'w) M"
  assumes m: "fail_fast m" and k: "\<And>x. fail_fast (k x)"
  shows "fail_fast (bindM m k)"
  unfolding fail_fast_def
proof
  fix s
  obtain r s1 where ms: "m s = (r, s1)" by (cases "m s")
  from m obtain evs1 where e1: "trace (snd s1) = trace (snd s) @ evs1" "propagated evs1 r"
    unfolding fail_fast_def using ms by (metis fst_conv snd_conv)
  show "\<exists>evs. trace (snd (snd (bindM m k s))) = trace (snd s) @ evs
            \<and> propagated evs (fst (bindM m k s))"
  proof (cases r)
    case (Inl e)
    then have "bindM m k s = (Inl e, s1)" using ms by (simp add: bindM_def)
    moreover have "propagated evs1 (Inl e :: py_error + 'b)"
      using e1(2) Inl by (simp add: propagated_raise)
    ultimately show ?thesis using e1(1) by auto
  next
    case (Inr x)
    then have b: "bindM m k s = k x s1" using ms by (simp add: bindM_def)
    from k [of x] obtain evs2 where
      e2: "trace (snd (snd (k x s1))) = trace (snd s1) @ evs2" "propagated evs2 (fst (k x s1))"
      unfolding fail_fast_def by blast
    have "list_all (\<lambda>ev. event_outcome ev = None) evs1"
      using e1(2) Inr by (simp add: propagated_returned)
    then have "propagated (evs1 @ evs2) (fst (k x s1))"
      using e2(2) by (rule propagated_append)
    then show ?thesis using b e1(1) e2(1) by auto
  qed
qed

lemma fail_fast_thenM: "fail_fast m \<Longrightarrow> fail_fast k \<Longrightarrow> fail_fast (thenM m k)"
  unfolding thenM_def by (rule fail_fast_bindM)

lemma fail_fast_with_self: "(\<And>d. fail_fast (f d)) \<Longrightarrow> fail_fast (with_self f)"
  unfolding fail_fast_def with_self_def by simp

lemma fail_fast_prod: "(\<And>a b. fail_fast (f a b)) \<Longrightarrow> fail_fast (case p of (a, b) \<Rightarrow> f a b)"
  by (cases p) simp

lemma fail_fast_if: "fail_fast a \<Longrightarrow> fail_fast b \<Longrightarrow> fail_fast (if c then a else b)"
  by simp

lemma fail_fast_cached_property:
  fixes body :: "('a, 'w) M"
  assumes "fail_fast body"
  shows "fail_fast (cached_property slot store body)"
  unfolding fail_fast_def
proof
  fix s :: "dubber \<times> 'w world"
  obtain d w where s: "s = (d, w)" by (cases s)
  from assms obtain evs where
    e: "trace (snd (snd (body s))) = trace (snd s) @ evs" "propagated evs (fst (body s))"
    unfolding fail_fast_def by blast
  show "\<exists>evs. trace (snd (snd (cached_property slot store body s))) = trace (snd s) @ evs
            \<and> propagated evs (fst (cached_property slot store body s))"
  proof (cases "slot d")
    case (Some v)
    then show ?thesis by (simp add: cached_property_def s)
  next
    case None
    then show ?thesis using e
      by (auto simp: cached_property_def s split: prod.splits sum.splits)
  qed
qed

lemma fail_fast_for_each: "(\<And>x. fail_fast (body x)) \<Longrightarrow> fail_fast (for_each body xs)"
proof (induction xs)
  case Nil
  show ?case by (simp add: fail_fast_def)
next
  case (Cons x xs)
  have "for_each body (x # xs) = thenM (body x) (for_each body xs)"
    by (rule ext) (simp add: thenM_def bindM_def split: prod.splits sum.splits)
  then show ?case using Cons by (simp add: fail_fast_thenM)
qed

lemmas fail_fast_rules =
  fail_fast_with_self fail_fast_bindM fail_fast_thenM fail_fast_prod fail_fast_if
  fail_fast_returnM fail_fast_raiseM fail_fast_liftE fail_fast_logging fail_fast_call
  fail_fast_cached_property fail_fast_for_each

lemma fail_fast_progress_bar_update: "fail_fast (progress_bar_update k)"
  unfolding progress_bar_update_def progress_bar_def
  apply (intro fail_fast_rules)
  apply (simp add: fail_fast_def split: prod.splits)
  done

lemma fail_fast_outputs:
  "fail_fast preprocesing_output" "fail_fast speech_to_text_output"
  "fail_fast translation_output" "fail_fast text_to_speech_output"
  "fail_fast postprocessing_output"
  unfolding preprocesing_output_def speech_to_text_output_def translation_output_def
    text_to_speech_output_def postprocessing_output_def no_attribute_def
  by (intro fail_fast_rules)+

lemma fail_fast_attr: "fail_fast m \<Longrightarrow> fail_fast (attr m name)"
  unfolding attr_def by (intro fail_fast_rules)






lemma fail_fast_run_clean_directory: "fail_fast (run_clean_directory E keep)"
  unfolding run_clean_directory_def clean_entry_def
  by (intro fail_fast_rules fail_fast_progress_bar_update fail_fast_attr fail_fast_outputs)


section \<open>The progress bar is untouched until a stage completes\<close>

lemma keeps_bar_returnM: "keeps_bar (returnM x)"
  by (simp add: keeps_bar_def returnM_def)

lemma keeps_bar_raiseM: "keeps_bar (raiseM e)"
  by (simp add: keeps_bar_def raiseM_def)

lemma keeps_bar_liftE: "keeps_bar (liftE r)"
  by (simp add: keeps_bar_def liftE_def)

lemma keeps_bar_logging: "keeps_bar (logging lvl msg)"
  by (simp add: keeps_bar_def logging_def split: prod.splits)

lemma keeps_bar_call: "keeps_bar (call E name args kwargs)"
  by (simp add: keeps_bar_def call_def split: prod.splits)

lemma keeps_bar_bindM:
  fixes m :: "('a, 'w) M" and k :: "'a \<Rightarrow> ('b, 'w) M"
  assumes "keeps_bar m" and "\<And>x. keeps_bar (k x)"
  shows "keeps_bar (bindM m k)"
  unfolding keeps_bar_def
proof
  fix s
  obtain r s1 where ms: "m s = (r, s1)" by (cases "m s")
  then have one: "cached_progress_bar (fst s1) = cached_progress_bar (fst s)"
    using assms(1) unfolding keeps_bar_def by (metis snd_conv)
  show "cached_progress_bar (fst (snd (bindM m k s))) = cached_progress_bar (fst s)"
  proof (cases r)
    case (Inl e)
    then show ?thesis using ms one by (simp add: bindM_def)
  next
    case (Inr x)
    then have "bindM m k s = k x s1" using ms by (simp add: bindM_def)
    moreover have "cached_progress_bar (fst (snd (k x s1))) = cached_progress_bar (fst s1)"
      using assms(2) [of x] unfolding keeps_bar_def by blast
    ultimately show ?thesis using one by simp
  qed
qed

lemma keeps_bar_raising:
  fixes m :: "('a, 'w) M" and k :: "'a \<Rightarrow> ('b, 'w) M"
  assumes "always_raises m" and "keeps_bar m"
  shows "keeps_bar (bindM m k)"
  unfolding keeps_bar_def
proof
  fix s
  obtain r s1 where ms: "m s = (r, s1)" by (cases "m s")
  with assms(1) obtain e where "r = Inl e"
    unfolding always_raises_def by (metis fst_conv isl_def)
  with ms have "bindM m k s = (Inl e, s1)" by (simp add: bindM_def)
  then show "cached_progress_bar (fst (snd (bindM m k s))) = cached_progress_bar (fst s)"
    using assms(2) ms unfolding keeps_bar_def by (metis fst_conv snd_conv)
qed

lemma keeps_bar_thenM: "keeps_bar m \<Longrightarrow> keeps_bar k \<Longrightarrow> keeps_bar (thenM m k)"
  unfolding thenM_def by (rule keeps_bar_bindM)

lemma keeps_bar_with_self: "(\<And>d. keeps_bar (f d)) \<Longrightarrow> keeps_bar (with_self f)"
  unfolding keeps_bar_def with_self_def by simp

lemma keeps_bar_prod: "(\<And>a b. keeps_bar (f a b)) \<Longrightarrow> keeps_bar (case p of (a, b) \<Rightarrow> f a b)"
  by (cases p) simp

lemma keeps_bar_if: "keeps_bar a \<Longrightarrow> keeps_bar b \<Longrightarrow> keeps_bar (if c then a else b)"
  by simp

lemma keeps_bar_is_video: "keeps_bar Dubber_is_video"
  unfolding keeps_bar_def Dubber_is_video_def cached_property_def with_self_def liftE_def
  by (auto split: prod.splits option.splits sum.splits)

lemma keeps_bar_pyannote_pipeline: "keeps_bar (pyannote_pipeline E)"
  unfolding pyannote_pipeline_def get_api_token_positional_def
  by (intro keeps_bar_with_self keeps_bar_bindM keeps_bar_raiseM keeps_bar_call)

lemma keeps_bar_run_preprocessing: "keeps_bar (run_preprocessing E)"
  unfolding run_preprocessing_def
  apply (rule keeps_bar_with_self)
  apply (rule keeps_bar_bindM, rule keeps_bar_is_video)
  apply (rule keeps_bar_bindM)
   apply (intro keeps_bar_if keeps_bar_bindM keeps_bar_call keeps_bar_liftE keeps_bar_returnM)
  apply (rule keeps_bar_prod)
  apply (rule keeps_bar_bindM, rule keeps_bar_call)
  apply (rule keeps_bar_thenM, rule keeps_bar_call)
  apply (rule keeps_bar_bindM, rule keeps_bar_call)
  apply (rule keeps_bar_bindM, rule keeps_bar_liftE)
  apply (rule keeps_bar_prod)
  apply (rule keeps_bar_raising)
   apply (rule pyannote_pipeline_raises)
  apply (rule keeps_bar_pyannote_pipeline)
  done

lemma keeps_bar_dub_ad: "keeps_bar (dub_ad E)"
  unfolding dub_ad_def thenM_def
  apply (rule keeps_bar_with_self)
  apply (rule keeps_bar_bindM, rule keeps_bar_logging)
  apply (rule keeps_bar_raising)
   apply (rule run_preprocessing_raises)
  apply (rule keeps_bar_run_preprocessing)
  done


section \<open>The metadata checkpoint\<close>

lemma tryM_logging:
  fixes m :: "(unit, 'w) M"
  shows "fst (tryM m (\<lambda>e. logging lvl (f e)) s) = Inr ()"
  by (auto simp: tryM_def logging_def split: prod.splits sum.splits)

lemma run_save_utterance_metadata_result:
  "fst (run_save_utterance_metadata E s)
     = Inr (PStr (posix_join (output_directory (fst s)) UTTERNACE_METADATA_FILE_NAME))"
proof -
  let ?path = "posix_join (output_directory (fst s)) UTTERNACE_METADATA_FILE_NAME"
  let ?body = "tryM
              (thenM (with_GFile E ?path ''w'' (\<lambda>json_file.
                        bindM text_to_speech_output (\<lambda>dubbed.
                          thenM (call E ''json.dump'' [dubbed, json_file] [])
                            (returnM ()))))
                 (logging INFO (''Utterance metadata saved successfully to ''
                    @ [CHR 0x27] @ ?path @ [CHR 0x27])))
              (\<lambda>e. logging WARNING (''Error saving utterance metadata: '' @ str_of_error e))"
  obtain s' where "?body s = (Inr (), s')"
    using tryM_logging [of _ WARNING "\<lambda>e. ''Error saving utterance metadata: '' @ str_of_error e" s]
    by (metis (no_types, lifting) prod.collapse)
  then show ?thesis
    by (simp add: run_save_utterance_metadata_def with_self_def os_path_join_def liftE_def
        bindM_def thenM_def returnM_def)
qed

lemmas run_save_unfold =
  run_save_utterance_metadata_def with_self_def os_path_join_def liftE_def
  thenM_def tryM_def with_GFile_def text_to_speech_output_def cached_property_def
  no_attribute_def bindM_def returnM_def raiseM_def logging_def call_def



section \<open>Concrete runs\<close>

lemmas accessor_unfold =
  preprocesing_output_def speech_to_text_output_def translation_output_def
  text_to_speech_output_def postprocessing_output_def cached_property_def
  no_attribute_def raiseM_def

lemmas eval_unfold =
  dub_ad_def run_preprocessing_def Dubber_is_video_def pyannote_pipeline_def
  get_api_token_positional_def is_video_def os_path_splitext_def ascii_lower_def
  ACCEPTED_VIDEO_FORMATS_def ACCEPTED_AUDIO_FORMATS_def unpack2_def
  cached_property_def with_self_def bindM_def thenM_def returnM_def raiseM_def liftE_def
  logging_def call_def disk_env_def fresh_world_def example_disk_def example_dubber_def
  Dubber_init_def

lemmas clean_unfold =
  run_clean_directory_def clean_entry_def postprocessing_output_def no_attribute_def
  progress_bar_update_def progress_bar_def NUMBER_OF_STEPS_def
  os_path_join_def posix_join_def
  cached_property_def with_self_def bindM_def thenM_def returnM_def raiseM_def liftE_def
  logging_def call_def disk_env_def fresh_world_def example_disk_def example_dubber_def
  staged_dubber_def Dubber_init_def

lemmas save_unfold =
  run_save_unfold UTTERNACE_METADATA_FILE_NAME_def posix_join_def str_of_error_def
  disk_env_def fresh_world_def example_disk_def example_dubber_def locked_disk_def
  staged_dubber_def Dubber_init_def


lemma example_cleanup:
  "run_clean_directory disk_env PNone (staged_dubber, fresh_world example_disk)
     = (Inl (Raised ''Permission denied''), staged_dubber,
        \<lparr>outside = example_disk\<lparr>disk_names := [''b.wav'', ''c.wav'']\<rparr>,
         trace = [Event ''tf.io.gfile.listdir'' [PStr ''out''] [] None,
                  Event ''tf.io.gfile.exists'' [PStr ''out/a.wav''] [] None,
                  Event ''tf.io.gfile.remove'' [PStr ''out/a.wav''] [] None,
                  Event ''tf.io.gfile.exists'' [PStr ''out/b.wav''] [] None,
                  Event ''tf.io.gfile.remove'' [PStr ''out/b.wav''] []
                    (Some (Raised ''Permission denied''))],
         logged = []\<rparr>)"
  by (simp add: clean_unfold)

lemma example_checkpoint:
  "run_save_utterance_metadata disk_env (staged_dubber, fresh_world locked_disk)
     = (Inr (PStr ''out/utterance_metadata.json''), staged_dubber,
        \<lparr>outside = locked_disk,
         trace = [Event ''tf.io.gfile.GFile''
                    [PStr ''out/utterance_metadata.json'', PStr ''w''] []
                    (Some (Raised ''Permission denied''))],
         logged = [(WARNING, ''Error saving utterance metadata: Permission denied'')]\<rparr>)"
  by (simp add: save_unfold)


lemma example_checkpoint_saved:
  "run_save_utterance_metadata disk_env (staged_dubber, fresh_world example_disk)
     = (Inr (PStr ''out/utterance_metadata.json''), staged_dubber,
        \<lparr>outside = example_disk,
         trace = [Event ''tf.io.gfile.GFile''
                    [PStr ''out/utterance_metadata.json'', PStr ''w''] [] None,
                  Event ''json.dump'' [PList [], PObject ''GFile'' []] [] None,
                  Event ''tf.io.gfile.GFile.close'' [PObject ''GFile'' []] [] None],
         logged = [(INFO, ''Utterance metadata saved successfully to ''
                      @ [CHR 0x27] @ ''out/utterance_metadata.json'' @ [CHR 0x27])]\<rparr>)"
  by (simp add: save_unfold)




section \<open>The claims about the orchestrator\<close>

text \<open>
  Claim C1. The claim is that a stage runs exactly once however often its cached output
  is requested. The cached properties do memoise, but what they would memoise never
  comes into being: an access leaves the object and the world as they were (no call is
  made, no slot is filled), returns the slot's value if a value was assigned to it and
  raises the \<^verbatim>\<open>AttributeError\<close> of the missing method otherwise. On a newly constructed
  \<^verbatim>\<open>Dubber\<close> the first access of \<^verbatim>\<open>preprocesing_output\<close> raises, and so does the second, on
  the very same state: the stage behind the property has run zero times.
\<close>

theorem stage_outputs_are_never_computed:
  "snd (preprocesing_output s) = s
   \<and> snd (speech_to_text_output s) = s
   \<and> snd (postprocessing_output s) = s
   \<and> fst (preprocesing_output (d, w))
       = (case cached_preprocesing_output d of
            Some v \<Rightarrow> Inr v
          | None \<Rightarrow> Inl (AttributeError ''Dubber object has no attribute preprocessing''))
   \<and> fst (speech_to_text_output (d, w))
       = (case cached_speech_to_text_output d of
            Some v \<Rightarrow> Inr v
          | None \<Rightarrow> Inl (AttributeError ''Dubber object has no attribute speech_to_text''))
   \<and> fst (postprocessing_output (d, w))
       = (case cached_postprocessing_output d of
            Some v \<Rightarrow> Inr v
          | None \<Rightarrow> Inl (AttributeError ''Dubber object has no attribute postprocessing''))
   \<and> preprocesing_output (Dubber_init inp out adv orig tgt cl, w)
       = (Inl (AttributeError ''Dubber object has no attribute preprocessing''),
          Dubber_init inp out adv orig tgt cl, w)
   \<and> preprocesing_output (snd (preprocesing_output (Dubber_init inp out adv orig tgt cl, w)))
       = (Inl (AttributeError ''Dubber object has no attribute preprocessing''),
          Dubber_init inp out adv orig tgt cl, w)"
  by (cases s) (simp add: accessor_unfold Dubber_init_def split: option.splits)

text \<open>
  Claim C2. The claim is that the cached translation output is the translation of the
  transcription output and the cached synthesis output the synthesis of the translation
  output. Both properties evaluate \<^verbatim>\<open>self.speech_to_text()\<close>, the expression of the
  transcription property, and neither \<^verbatim>\<open>run_translation\<close> nor \<^verbatim>\<open>run_text_to_speech\<close>: an
  access changes nothing, returns an assigned value or raises the \<^verbatim>\<open>AttributeError\<close>
  naming \<^verbatim>\<open>speech_to_text\<close>, and on a newly constructed \<^verbatim>\<open>Dubber\<close> the three properties
  give the same result.
\<close>

theorem translation_and_synthesis_outputs_alias_transcription:
  "snd (translation_output s) = s
   \<and> snd (text_to_speech_output s) = s
   \<and> fst (translation_output (d, w))
       = (case cached_translation_output d of
            Some v \<Rightarrow> Inr v
          | None \<Rightarrow> Inl (AttributeError ''Dubber object has no attribute speech_to_text''))
   \<and> fst (text_to_speech_output (d, w))
       = (case cached_text_to_speech_output d of
            Some v \<Rightarrow> Inr v
          | None \<Rightarrow> Inl (AttributeError ''Dubber object has no attribute speech_to_text''))
   \<and> translation_output (Dubber_init inp out adv orig tgt cl, w)
       = speech_to_text_output (Dubber_init inp out adv orig tgt cl, w)
   \<and> text_to_speech_output (Dubber_init inp out adv orig tgt cl, w)
       = speech_to_text_output (Dubber_init inp out adv orig tgt cl, w)"
  by (cases s) (simp add: accessor_unfold Dubber_init_def split: option.splits)

text \<open>
  Claim C3. The claim is about the successful runs of \<^verbatim>\<open>dub_ad\<close>; there is none. Whatever
  the environment does and whatever the state of the object, \<^verbatim>\<open>dub_ad\<close> raises:
  \<^verbatim>\<open>run_preprocessing\<close> reads \<^verbatim>\<open>self.pyannote_pipeline\<close>, which calls \<^verbatim>\<open>get_api_token\<close> with
  positional arguments. On the example input, with every collaborator succeeding, the
  run ends with that \<^verbatim>\<open>TypeError\<close> after the three Demucs calls of the preprocessing stage
  and the start message; no later stage is entered and no path is returned.
\<close>

theorem dub_ad_never_returns:
  "isl (fst (dub_ad E s))
   \<and> fst (dub_ad disk_env (example_dubber cl, fresh_world example_disk))
       = Inl (TypeError ''get_api_token() takes 1 positional argument but 3 were given'')
   \<and> map event_name (trace (snd (snd (dub_ad disk_env
         (example_dubber cl, fresh_world example_disk)))))
       = [''audio_processing.build_demucs_command'',
          ''audio_processing.execute_demcus_command'',
          ''audio_processing.assemble_split_audio_file_paths'']
   \<and> logged (snd (snd (dub_ad disk_env (example_dubber cl, fresh_world example_disk))))
       = [(INFO, ''Dubbing process starting...'')]"
proof -
  have "isl (fst (dub_ad E s))"
    using dub_ad_raises [of E] unfolding always_raises_def by blast
  moreover have "dub_ad disk_env (example_dubber cl, fresh_world example_disk)
      = (Inl (TypeError ''get_api_token() takes 1 positional argument but 3 were given''),
         (example_dubber cl)\<lparr>cached_is_video := Some False\<rparr>,
         \<lparr>outside = example_disk,
          trace = [Event ''audio_processing.build_demucs_command'' []
                     [(''audio_file'', PStr ''ad.mp3''), (''output_directory'', PStr ''out'')] None,
                   Event ''audio_processing.execute_demcus_command'' []
                     [(''command'', PNone)] None,
                   Event ''audio_processing.assemble_split_audio_file_paths'' []
                     [(''command'', PNone)] None],
          logged = [(INFO, ''Dubbing process starting...'')]\<rparr>)"
    by (simp add: eval_unfold)
  ultimately show ?thesis by simp
qed

text \<open>
  Claim C9. The claim is about the progress counter at the end of a successful run.
  The bar is created with a total of 6 when cleanup is enabled and of 5 otherwise, but
  \<^verbatim>\<open>dub_ad\<close> always raises before the first \<^verbatim>\<open>update(1)\<close>: it leaves the progress bar as it
  found it, and on a newly constructed \<^verbatim>\<open>Dubber\<close> the bar has not even been created when
  the run ends.
\<close>

theorem dub_ad_progress_never_advances:
  "isl (fst (dub_ad E s))
   \<and> cached_progress_bar (fst (snd (dub_ad E s))) = cached_progress_bar (fst s)
   \<and> cached_progress_bar (fst (snd (dub_ad E (Dubber_init inp out adv orig tgt cl, w)))) = None
   \<and> fst (progress_bar (Dubber_init inp out adv orig tgt cl, w))
       = Inr \<lparr>tqdm_total = (if cl then 6 else 5), tqdm_n = 0\<rparr>"
proof -
  have "isl (fst (dub_ad E s))"
    using dub_ad_raises [of E] unfolding always_raises_def by blast
  moreover have k: "cached_progress_bar (fst (snd (dub_ad E s'))) = cached_progress_bar (fst s')"
    for s' :: "dubber \<times> 'a world"
    using keeps_bar_dub_ad [of E] unfolding keeps_bar_def by blast
  moreover have "cached_progress_bar (fst (snd (dub_ad E (Dubber_init inp out adv orig tgt cl, w)))) = None"
    unfolding k by (simp add: Dubber_init_def)
  moreover have "fst (progress_bar (Dubber_init inp out adv orig tgt cl, w))
       = Inr \<lparr>tqdm_total = (if cl then 6 else 5), tqdm_n = 0\<rparr>"
    by (simp add: progress_bar_def cached_property_def with_self_def returnM_def
        NUMBER_OF_STEPS_def Dubber_init_def)
  ultimately show ?thesis by blast
qed

text \<open>
  Claim C4, as amended. \<^verbatim>\<open>run_clean_directory\<close> has no error handling of its own: of the
  calls it makes (listing the directory, testing, removing), one that fails is the last
  call made and its error is what \<^verbatim>\<open>run_clean_directory\<close> raises. A deletion that fails
  therefore ends the cleanup, and the entries listed after it are not attempted.
\<close>

theorem run_clean_directory_stops_at_first_failure:
  assumes "run_clean_directory E keep_files (d, w) = (r, d', w')"
  shows "\<exists>evs. trace w' = trace w @ evs
           \<and> (\<forall>pre ev post e. evs = pre @ ev # post \<longrightarrow> event_outcome ev = Some e \<longrightarrow>
                  post = [] \<and> r = Inl e)"
proof -
  from fail_fast_run_clean_directory [of E keep_files]
  obtain evs where evs: "trace (snd (snd (run_clean_directory E keep_files (d, w))))
      = trace (snd (d, w)) @ evs"
    "propagated evs (fst (run_clean_directory E keep_files (d, w)))"
    unfolding fail_fast_def by blast
  have "propagated evs r" using evs(2) assms by simp
  then have "\<forall>pre ev post e. evs = pre @ ev # post \<longrightarrow> event_outcome ev = Some e \<longrightarrow>
                  post = [] \<and> r = Inl e"
    using propagated_split by blast
  moreover have "trace w' = trace w @ evs" using evs(1) assms by simp
  ultimately show ?thesis by blast
qed

theorem run_clean_directory_stops_at_first_failure_witness:
  "fst (run_clean_directory disk_env PNone (staged_dubber, fresh_world example_disk))
     = Inl (Raised ''Permission denied'')
   \<and> (\<exists>evs. trace (snd (snd (run_clean_directory disk_env PNone
                 (staged_dubber, fresh_world example_disk)))) = [] @ evs
         \<and> last evs = Event ''tf.io.gfile.remove'' [PStr ''out/b.wav''] []
                        (Some (Raised ''Permission denied''))
         \<and> list_all (\<lambda>ev. event_outcome ev = None) (butlast evs))"
  using run_clean_directory_stops_at_first_failure [OF example_cleanup]
  by (simp add: example_cleanup)

text \<open>
  Claim C4 as stated fails: with three files listed and the second one impossible to
  remove, cleanup raises after the failed removal; the third file is never tested or
  removed and is still there, beside the second. And on a newly constructed \<^verbatim>\<open>Dubber\<close>
  cleanup raises before it lists the directory, and removes nothing.
\<close>

theorem run_clean_directory_leaves_later_entries:
  "fst (run_clean_directory disk_env PNone (staged_dubber, fresh_world example_disk))
     = Inl (Raised ''Permission denied'')
   \<and> disk_names (outside (snd (snd (run_clean_directory disk_env PNone
        (staged_dubber, fresh_world example_disk))))) = [''b.wav'', ''c.wav'']
   \<and> map event_name (trace (snd (snd (run_clean_directory disk_env PNone
        (staged_dubber, fresh_world example_disk)))))
       = [''tf.io.gfile.listdir'', ''tf.io.gfile.exists'', ''tf.io.gfile.remove'',
          ''tf.io.gfile.exists'', ''tf.io.gfile.remove'']
   \<and> Event ''tf.io.gfile.exists'' [PStr ''out/c.wav''] [] None
       \<notin> set (trace (snd (snd (run_clean_directory disk_env PNone
            (staged_dubber, fresh_world example_disk)))))
   \<and> run_clean_directory disk_env PNone (example_dubber True, fresh_world example_disk)
       = (Inl (AttributeError ''Dubber object has no attribute postprocessing''),
          example_dubber True, fresh_world example_disk)"
  by (simp add: example_cleanup) (simp add: clean_unfold)



text \<open>
  Claim C10. \<^verbatim>\<open>run_save_utterance_metadata\<close> returns the output directory joined with
  \<^verbatim>\<open>utterance_metadata.json\<close>, for every environment, object and world: the value does not
  depend on what the write did. On the examples, the run that wrote the file and logged
  the success message and the run whose file could not be opened and logged the warning
  return the same path.
\<close>

theorem run_save_utterance_metadata_returns_path:
  "fst (run_save_utterance_metadata E (d, w))
     = Inr (PStr (posix_join (output_directory d) UTTERNACE_METADATA_FILE_NAME))
   \<and> fst (run_save_utterance_metadata E (d, w)) = fst (run_save_utterance_metadata E' (d, w'))
   \<and> fst (run_save_utterance_metadata disk_env (staged_dubber, fresh_world example_disk))
       = Inr (PStr ''out/utterance_metadata.json'')
   \<and> logged (snd (snd (run_save_utterance_metadata disk_env
         (staged_dubber, fresh_world example_disk))))
       = [(INFO, ''Utterance metadata saved successfully to ''
                   @ [CHR 0x27] @ ''out/utterance_metadata.json'' @ [CHR 0x27])]
   \<and> fst (run_save_utterance_metadata disk_env (staged_dubber, fresh_world locked_disk))
       = Inr (PStr ''out/utterance_metadata.json'')
   \<and> logged (snd (snd (run_save_utterance_metadata disk_env
         (staged_dubber, fresh_world locked_disk))))
       = [(WARNING, ''Error saving utterance metadata: Permission denied'')]"
  by (simp add: run_save_utterance_metadata_result example_checkpoint example_checkpoint_saved)

end
